theory Spec2Isabelle
  imports Complex_Main "HOL-Library.Sublist" "HOL-Library.Char_ord" "HOL-Library.List_Lexorder"
begin

section \<open>Data model of the dashboard script\<close>

text \<open>
  The script \<^verbatim>\<open>app.py\<close> reads one table with pandas and works on it row by row.
  A numeric cell of the table is a numpy \<^verbatim>\<open>float64\<close>: a finite value, a signed zero,
  an infinity, or NaN, which is also how pandas stores a missing metric.
\<close>

datatype f64 = Finite rat | NegZero | PosInf | NegInf | NaN

text \<open>
  A \<^verbatim>\<open>pandas.Timestamp\<close> is a count of nanoseconds since the epoch; \<^verbatim>\<open>NaT\<close>, the
  missing timestamp, is \<open>None\<close>. A \<^verbatim>\<open>datetime.date\<close>, as the date picker returns it,
  is a count of days.
\<close>

type_synonym timestamp = "int option"
type_synonym pydate = int

record row =
  iso_code :: string
  location :: string
  date :: timestamp
  total_cases :: f64
  new_cases :: f64
  new_cases_smoothed :: f64
  total_deaths :: f64
  new_deaths :: f64
  total_vaccinations :: f64
  people_fully_vaccinated_per_hundred :: f64
  new_tests_per_thousand :: f64
  positive_rate :: f64

text \<open>A DataFrame is the list of its rows, in positional order.\<close>

type_synonym dataframe = "row list"

datatype py_error = IndexError | StreamlitAPIException | NotFoundError | FetchError

text \<open>
  \<open>IndexError\<close> is what Python and pandas raise on a position out of range, and
  \<open>StreamlitAPIException\<close> what a Streamlit widget raises on arguments it refuses.
  \<open>NotFoundError\<close> and \<open>FetchError\<close> are the two failure kinds the specification
  names; no statement of the script raises either of them.
\<close>

section \<open>Filtering (lines 117 to 121)\<close>

text \<open>
  \<^verbatim>\<open>pd.Timestamp(d)\<close> of a date is midnight of that day.
\<close>

definition ns_per_day :: int where
  "ns_per_day = 86400000000000"

definition pd_Timestamp :: "pydate \<Rightarrow> timestamp" where
  "pd_Timestamp d = Some (d * ns_per_day)"

text \<open>Comparisons of timestamps: every comparison with \<^verbatim>\<open>NaT\<close> is false.\<close>

fun ts_ge :: "timestamp \<Rightarrow> timestamp \<Rightarrow> bool" where
  "ts_ge (Some a) (Some b) = (b \<le> a)"
| "ts_ge _ _ = False"

fun ts_le :: "timestamp \<Rightarrow> timestamp \<Rightarrow> bool" where
  "ts_le (Some a) (Some b) = (a \<le> b)"
| "ts_le _ _ = False"

text \<open>
  Indexing a tuple: \<^verbatim>\<open>t[i]\<close>, with Python's negative positions, raises
  \<^verbatim>\<open>IndexError\<close> out of range. The date picker returns a tuple that holds
  fewer than two dates while the user is still choosing.
\<close>

definition py_index :: "'a list \<Rightarrow> int \<Rightarrow> py_error + 'a" where
  "py_index xs i =
     (if 0 \<le> i then
        (if i < int (length xs) then Inr (xs ! nat i) else Inl IndexError)
      else
        (if - int (length xs) \<le> i then Inr (xs ! nat (int (length xs) + i))
         else Inl IndexError))"

text \<open>
  \<^verbatim>\<open>mask = isin(selected_countries) & (date >= Timestamp(date_range[0]))
       & (date <= Timestamp(date_range[1]))\<close>: the three operands are all evaluated
  (\<^verbatim>\<open>&\<close> does not short-circuit), then the rows whose mask is true are kept.
\<close>

definition row_mask :: "string list \<Rightarrow> pydate \<Rightarrow> pydate \<Rightarrow> row \<Rightarrow> bool" where
  "row_mask selected_countries d0 d1 r =
     (location r \<in> set selected_countries
      \<and> ts_ge (date r) (pd_Timestamp d0)
      \<and> ts_le (date r) (pd_Timestamp d1))"

definition filtered_df :: "dataframe \<Rightarrow> string list \<Rightarrow> pydate list \<Rightarrow> py_error + dataframe" where
  "filtered_df df selected_countries date_range =
     (case py_index date_range 0 of
        Inl err \<Rightarrow> Inl err
      | Inr d0 \<Rightarrow>
          (case py_index date_range 1 of
             Inl err \<Rightarrow> Inl err
           | Inr d1 \<Rightarrow> Inr (filter (row_mask selected_countries d0 d1) df)))"

text \<open>
  The predicate of the specification, written from its words: the location is one of the
  selected ones and the date lies in the closed interval from \<open>s\<close> to \<open>e\<close>, both
  taken at midnight. A missing date lies in no interval.
\<close>

definition in_view :: "string list \<Rightarrow> pydate \<Rightarrow> pydate \<Rightarrow> row \<Rightarrow> bool" where
  "in_view L s e r =
     (location r \<in> set L \<and>
      (case date r of
         None \<Rightarrow> False
       | Some t \<Rightarrow> s * ns_per_day \<le> t \<and> t \<le> e * ns_per_day))"

text \<open>
  Line 103: \<^verbatim>\<open>locations = sorted(df['location'].unique())\<close>, the options of the
  country selector.
\<close>

definition locations :: "dataframe \<Rightarrow> string list" where
  "locations df = sort (remdups (map location df))"

section \<open>The latest global row (lines 123 to 125)\<close>

text \<open>
  \<^verbatim>\<open>df['date'].max()\<close> skips missing dates and is \<^verbatim>\<open>NaT\<close> when there is none.
\<close>

fun ts_max :: "timestamp list \<Rightarrow> timestamp" where
  "ts_max [] = None"
| "ts_max (None # ts) = ts_max ts"
| "ts_max (Some t # ts) = (case ts_max ts of None \<Rightarrow> Some t | Some u \<Rightarrow> Some (max t u))"

definition latest_date :: "dataframe \<Rightarrow> timestamp" where
  "latest_date df = ts_max (map date df)"

text \<open>
  \<^verbatim>\<open>.iloc[i]\<close> selects a row by position, negative positions counting from the end,
  and raises \<^verbatim>\<open>IndexError\<close> when the position is out of bounds.
\<close>

definition iloc :: "dataframe \<Rightarrow> int \<Rightarrow> py_error + row" where
  "iloc df i = py_index df i"

text \<open>\<^verbatim>\<open>global_data = df[df['location'] == 'World'].iloc[-1]\<close>\<close>

definition global_data :: "dataframe \<Rightarrow> py_error + row" where
  "global_data df = iloc (filter (\<lambda>r. location r = ''World'') df) (- 1)"

section \<open>The run of the script down to the latest global row (lines 103 to 125)\<close>

text \<open>
  Lines 104 to 108:
  \<^verbatim>\<open>selected_countries = st.sidebar.multiselect("Select Countries to Compare",
      options=locations, default=["World", "India", "United States", "Brazil"])\<close>.
  The widget refuses a default value that is not one of its options, raising
  \<^verbatim>\<open>StreamlitAPIException\<close>; otherwise it returns what the user has chosen, which is
  the argument \<open>chosen\<close> here.
\<close>

definition default_countries :: "string list" where
  "default_countries = [''World'', ''India'', ''United States'', ''Brazil'']"

definition multiselect :: "string list \<Rightarrow> string list \<Rightarrow> string list \<Rightarrow> py_error + string list" where
  "multiselect options default_values chosen =
     (if list_all (\<lambda>d. d \<in> set options) default_values then Inr chosen
      else Inl StreamlitAPIException)"

definition selected_countries :: "dataframe \<Rightarrow> string list \<Rightarrow> py_error + string list" where
  "selected_countries df chosen = multiselect (locations df) default_countries chosen"

text \<open>
  The script is one sequence of statements: the selector of line 104 runs first, then the
  date picker of line 110, whose returned tuple is the argument \<open>date_range\<close>, then
  the filter of lines 118 to 121, and only then line 125. An exception at one statement
  ends the run, so that line 125 is reached only by a table that the selector accepts.
\<close>

definition latest_snapshot :: "dataframe \<Rightarrow> string list \<Rightarrow> pydate list \<Rightarrow> py_error + row" where
  "latest_snapshot df chosen date_range =
     (case selected_countries df chosen of
        Inl err \<Rightarrow> Inl err
      | Inr sel \<Rightarrow>
          (case filtered_df df sel date_range of
             Inl err \<Rightarrow> Inl err
           | Inr view \<Rightarrow> global_data df))"

section \<open>Arithmetic of float64 cells\<close>

text \<open>
  The cells the script computes with are numpy \<^verbatim>\<open>float64\<close> scalars, whose arithmetic
  is IEEE 754 binary64 in the default rounding mode: an exact result is rounded to the
  nearest value with a 53 bit significand, ties to the even significand; a division by
  zero gives an infinity or NaN and raises nothing.
\<close>

function bit_length :: "int \<Rightarrow> int" where
  "bit_length n = (if n \<le> 0 then 0 else 1 + bit_length (n div 2))"
  by pat_completeness auto
termination
  by (relation "measure nat") auto

declare bit_length.simps [simp del]

definition pow2 :: "int \<Rightarrow> rat" where
  "pow2 k = (if 0 \<le> k then 2 ^ nat k else 1 / 2 ^ nat (- k))"

text \<open>For \<open>q > 0\<close>, the \<open>k\<close> with \<open>2 ^ k \<le> q < 2 ^ (k + 1)\<close>.\<close>

definition floor_log2 :: "rat \<Rightarrow> int" where
  "floor_log2 q =
     (let (a, b) = quotient_of q;
          k = bit_length a - bit_length b
      in if pow2 k \<le> q then k else k - 1)"

definition round_half_even :: "rat \<Rightarrow> int" where
  "round_half_even q =
     (let f = \<lfloor>q\<rfloor>; d = q - of_int f
      in if d < 1 / 2 then f
         else if 1 / 2 < d then f + 1
         else if even f then f else f + 1)"

text \<open>
  Rounding an exact non-zero result to binary64: the significand has 53 bits, the least
  exponent of a unit in the last place is \<open>- 1074\<close> (subnormal numbers), a rounded
  magnitude of \<open>2 ^ 1024\<close> or more overflows to an infinity, and a magnitude that rounds
  to nothing keeps its sign as a zero.
\<close>

definition round64 :: "rat \<Rightarrow> f64" where
  "round64 q =
     (if q = 0 then Finite 0
      else
        let a = \<bar>q\<bar>;
            e = max (floor_log2 a - 52) (- 1074);
            m = round_half_even (a / pow2 e);
            r = of_int m * pow2 e
        in if pow2 1024 \<le> r then (if q < 0 then NegInf else PosInf)
           else if r = 0 then (if q < 0 then NegZero else Finite 0)
           else Finite (if q < 0 then - r else r))"

fun f64_isnan :: "f64 \<Rightarrow> bool" where
  "f64_isnan NaN = True"
| "f64_isnan _ = False"

fun f64_isinf :: "f64 \<Rightarrow> bool" where
  "f64_isinf PosInf = True"
| "f64_isinf NegInf = True"
| "f64_isinf _ = False"

fun f64_isfinite :: "f64 \<Rightarrow> bool" where
  "f64_isfinite (Finite q) = True"
| "f64_isfinite NegZero = True"
| "f64_isfinite _ = False"

fun f64_iszero :: "f64 \<Rightarrow> bool" where
  "f64_iszero (Finite q) = (q = 0)"
| "f64_iszero NegZero = True"
| "f64_iszero _ = False"

fun signbit :: "f64 \<Rightarrow> bool" where
  "signbit (Finite q) = (q < 0)"
| "signbit NegZero = True"
| "signbit NegInf = True"
| "signbit _ = False"

text \<open>The exact value of a finite cell.\<close>

fun f64_value :: "f64 \<Rightarrow> rat" where
  "f64_value (Finite q) = q"
| "f64_value _ = 0"

definition signed_zero :: "bool \<Rightarrow> f64" where
  "signed_zero neg = (if neg then NegZero else Finite 0)"

definition signed_inf :: "bool \<Rightarrow> f64" where
  "signed_inf neg = (if neg then NegInf else PosInf)"

text \<open>
  \<^verbatim>\<open>x >= y\<close> and \<^verbatim>\<open>x < y\<close>: false as soon as one side is NaN; the two zeros are
  equal.
\<close>

fun f64_ge :: "f64 \<Rightarrow> f64 \<Rightarrow> bool" where
  "f64_ge NaN _ = False"
| "f64_ge _ NaN = False"
| "f64_ge PosInf _ = True"
| "f64_ge _ NegInf = True"
| "f64_ge NegInf _ = False"
| "f64_ge _ PosInf = False"
| "f64_ge x y = (f64_value y \<le> f64_value x)"

fun f64_lt :: "f64 \<Rightarrow> f64 \<Rightarrow> bool" where
  "f64_lt NaN _ = False"
| "f64_lt _ NaN = False"
| "f64_lt PosInf _ = False"
| "f64_lt _ NegInf = False"
| "f64_lt NegInf _ = True"
| "f64_lt _ PosInf = True"
| "f64_lt x y = (f64_value x < f64_value y)"

text \<open>\<^verbatim>\<open>x / y\<close> on float64 scalars.\<close>

definition f64_div :: "f64 \<Rightarrow> f64 \<Rightarrow> f64" where
  "f64_div x y =
     (if f64_isnan x \<or> f64_isnan y then NaN
      else
        let neg = (signbit x \<noteq> signbit y)
        in if f64_isinf x then (if f64_isinf y then NaN else signed_inf neg)
           else if f64_isinf y then signed_zero neg
           else if f64_iszero y then (if f64_iszero x then NaN else signed_inf neg)
           else if f64_iszero x then signed_zero neg
           else round64 (f64_value x / f64_value y))"

text \<open>\<^verbatim>\<open>x * y\<close> on float64 scalars.\<close>

definition f64_mul :: "f64 \<Rightarrow> f64 \<Rightarrow> f64" where
  "f64_mul x y =
     (if f64_isnan x \<or> f64_isnan y then NaN
      else
        let neg = (signbit x \<noteq> signbit y)
        in if f64_isinf x \<or> f64_isinf y then
             (if f64_iszero x \<or> f64_iszero y then NaN else signed_inf neg)
           else if f64_iszero x \<or> f64_iszero y then signed_zero neg
           else round64 (f64_value x * f64_value y))"

section \<open>Formatting numbers (lines 135 to 138 and 168 to 172)\<close>

text \<open>
  Python's format specification \<^verbatim>\<open>.Nf\<close> prints a float in fixed point with \<open>N\<close>
  digits after the point, rounding the exact binary value to the nearest such decimal,
  ties to even; the sign of a negative value is kept even when every printed digit is
  zero; \<^verbatim>\<open>,\<close> groups the digits before the point in threes; an infinity prints as
  \<^verbatim>\<open>inf\<close> and NaN as \<^verbatim>\<open>nan\<close>, which no option changes.
\<close>

definition digit_char :: "int \<Rightarrow> char" where
  "digit_char d = char_of (48 + d)"

function digits :: "int \<Rightarrow> string" where
  "digits n = (if n < 10 then [digit_char n] else digits (n div 10) @ [digit_char (n mod 10)])"
  by pat_completeness auto
termination
  by (relation "measure nat") auto

declare digits.simps [simp del]

text \<open>The last \<open>p\<close> decimal digits of \<open>m\<close>, with leading zeros.\<close>

fun frac_digits :: "nat \<Rightarrow> int \<Rightarrow> string" where
  "frac_digits 0 m = []"
| "frac_digits (Suc p) m = frac_digits p (m div 10) @ [digit_char (m mod 10)]"

function group_thousands :: "string \<Rightarrow> string" where
  "group_thousands ds =
     (if length ds \<le> 3 then ds
      else group_thousands (take (length ds - 3) ds) @ CHR '','' # drop (length ds - 3) ds)"
  by pat_completeness auto
termination
  by (relation "measure length") auto

declare group_thousands.simps [simp del]

text \<open>A magnitude \<open>a \<ge> 0\<close> in fixed point.\<close>

definition fixed_point :: "nat \<Rightarrow> bool \<Rightarrow> rat \<Rightarrow> string" where
  "fixed_point prec grouping a =
     (let n = round_half_even (a * 10 ^ prec);
          ip = digits (n div 10 ^ prec);
          fp = frac_digits prec (n mod 10 ^ prec)
      in (if grouping then group_thousands ip else ip)
         @ (if prec = 0 then [] else CHR ''.'' # fp))"

fun py_format_f :: "nat \<Rightarrow> bool \<Rightarrow> f64 \<Rightarrow> string" where
  "py_format_f prec grouping NaN = ''nan''"
| "py_format_f prec grouping PosInf = ''inf''"
| "py_format_f prec grouping NegInf = ''-inf''"
| "py_format_f prec grouping NegZero = CHR ''-'' # fixed_point prec grouping 0"
| "py_format_f prec grouping (Finite q) =
     (if q < 0 then CHR ''-'' # fixed_point prec grouping (- q)
      else fixed_point prec grouping q)"

text \<open>
  \<^verbatim>\<open>def format_num(num):
      if num >= 1_000_000_000: return f"{num/1_000_000_000:.2f}B"
      if num >= 1_000_000: return f"{num/1_000_000:.2f}M"
      return f"{num:,.0f}"\<close>
\<close>

definition format_num :: "f64 \<Rightarrow> string" where
  "format_num num =
     (if f64_ge num (Finite 1000000000) then
        py_format_f 2 False (f64_div num (Finite 1000000000)) @ ''B''
      else if f64_ge num (Finite 1000000) then
        py_format_f 2 False (f64_div num (Finite 1000000)) @ ''M''
      else py_format_f 0 True num)"

text \<open>
  \<^verbatim>\<open>mortality = (global_data['total_deaths'] / global_data['total_cases']) * 100\<close>,
  shown on the fourth card as \<^verbatim>\<open>{mortality:.2f}%\<close>.
\<close>

definition mortality :: "row \<Rightarrow> f64" where
  "mortality g = f64_mul (f64_div (total_deaths g) (total_cases g)) (Finite 100)"

definition mortality_text :: "row \<Rightarrow> string" where
  "mortality_text g = py_format_f 2 False (mortality g) @ ''%''"

section \<open>The frame of the testing chart (lines 240 to 241)\<close>

text \<open>
  A float cell is missing when it is NaN. \<^verbatim>\<open>dropna(subset=cols)\<close>, with its default
  \<^verbatim>\<open>how='any'\<close>, drops the rows in which a column of \<open>cols\<close> is missing.
\<close>

definition isna :: "f64 \<Rightarrow> bool" where
  "isna x = f64_isnan x"

definition dropna :: "(row \<Rightarrow> f64) list \<Rightarrow> dataframe \<Rightarrow> dataframe" where
  "dropna cols df = filter (\<lambda>r. \<not> list_ex (\<lambda>col. isna (col r)) cols) df"

definition fig_test_frame :: "dataframe \<Rightarrow> dataframe" where
  "fig_test_frame filtered = dropna [new_tests_per_thousand, positive_rate] filtered"

section \<open>Sample rows\<close>

text \<open>
  A row of the given location and date in which every metric is missing, to build
  concrete tables from. Day 18628 is 2021-01-01 and day 18779 is 2021-06-01.
\<close>

definition row_at :: "string \<Rightarrow> timestamp \<Rightarrow> row" where
  "row_at loc t =
     \<lparr>iso_code = [], location = loc, date = t,
      total_cases = NaN, new_cases = NaN, new_cases_smoothed = NaN,
      total_deaths = NaN, new_deaths = NaN, total_vaccinations = NaN,
      people_fully_vaccinated_per_hundred = NaN,
      new_tests_per_thousand = NaN, positive_rate = NaN\<rparr>"

definition world_jan :: row where
  "world_jan = row_at ''World'' (pd_Timestamp 18628)"

definition world_jun :: row where
  "world_jun = row_at ''World'' (pd_Timestamp 18779)"

definition india_mar :: row where
  "india_mar = row_at ''India'' (pd_Timestamp 18700)"

definition brazil_jul :: row where
  "brazil_jul = row_at ''Brazil'' (pd_Timestamp 18820)"

definition usa_feb :: row where
  "usa_feb = row_at ''United States'' (pd_Timestamp 18660)"

definition india_tested :: row where
  "india_tested = india_mar\<lparr>new_tests_per_thousand := Finite 2, positive_rate := Finite (1 / 20)\<rparr>"

definition india_tests_only :: row where
  "india_tests_only = india_mar\<lparr>new_tests_per_thousand := Finite 2\<rparr>"

definition india_rate_only :: row where
  "india_rate_only = india_mar\<lparr>positive_rate := PosInf\<rparr>"

definition world_counts :: row where
  "world_counts = world_jun\<lparr>total_cases := Finite 1000, total_deaths := Finite 50\<rparr>"

definition world_no_cases :: row where
  "world_no_cases = world_jun\<lparr>total_cases := Finite 0, total_deaths := Finite 50\<rparr>"

section \<open>Properties of the filter\<close>

lemma py_index_pair:
  "py_index [s, e] 0 = Inr s" "py_index [s, e] 1 = Inr e"
  by (simp_all add: py_index_def)

lemma filtered_df_pair:
  "filtered_df df L [s, e] = Inr (filter (row_mask L s e) df)"
  by (simp add: filtered_df_def py_index_pair)

lemma row_mask_in_view: "row_mask L s e r = in_view L s e r"
  by (cases "date r") (auto simp: row_mask_def in_view_def pd_Timestamp_def)

lemma in_view_on_days:
  "date r = pd_Timestamp d \<Longrightarrow> in_view L s e r = (location r \<in> set L \<and> s \<le> d \<and> d \<le> e)"
  by (simp add: in_view_def pd_Timestamp_def ns_per_day_def)

text \<open>
  Claim C1. For every table \<open>D\<close>, selection \<open>L\<close> and dates \<open>s\<close>, \<open>e\<close>, the filter
  returns a view that is a subsequence of \<open>D\<close> (the rows that pass, in the order of
  \<open>D\<close>; \<open>D\<close> itself is a value and stays as it is), and a row of \<open>D\<close> is in the view
  exactly when its location is selected and its date lies in the closed interval from
  \<open>s\<close> to \<open>e\<close>: a row dated \<open>s\<close> or \<open>e\<close> itself is kept.
\<close>

theorem filtered_df_exact_subsequence:
  "\<exists>view. filtered_df D L [s, e] = Inr view
      \<and> subseq view D
      \<and> view = filter (in_view L s e) D
      \<and> (\<forall>r. r \<in> set view \<longleftrightarrow> r \<in> set D \<and> in_view L s e r)
      \<and> (\<forall>r d. date r = pd_Timestamp d \<longrightarrow>
            (r \<in> set view \<longleftrightarrow> r \<in> set D \<and> location r \<in> set L \<and> s \<le> d \<and> d \<le> e))"
proof -
  let ?view = "filter (in_view L s e) D"
  have run: "filtered_df D L [s, e] = Inr ?view"
    by (simp add: filtered_df_pair row_mask_in_view [abs_def])
  have sub: "subseq ?view D"
    by simp
  have mem: "\<forall>r. r \<in> set ?view \<longleftrightarrow> r \<in> set D \<and> in_view L s e r"
    by simp
  have days: "\<forall>r d. date r = pd_Timestamp d \<longrightarrow>
      (r \<in> set ?view \<longleftrightarrow> r \<in> set D \<and> location r \<in> set L \<and> s \<le> d \<and> d \<le> e)"
    by (simp add: in_view_on_days)
  from run sub mem days show ?thesis
    by blast
qed

lemmas row_simps = row_at_def world_jan_def world_jun_def india_mar_def brazil_jul_def
  pd_Timestamp_def ns_per_day_def

text \<open>
  The filter on a table of four rows: the rows on the first and on the last day of the
  interval are kept, the row of a location that is not selected is dropped.
\<close>

theorem filtered_df_exact_subsequence_witness:
  "filtered_df [world_jan, india_mar, brazil_jul, world_jun] [''World'', ''India''] [18628, 18779]
     = Inr [world_jan, india_mar, world_jun]
   \<and> subseq [world_jan, india_mar, world_jun] [world_jan, india_mar, brazil_jul, world_jun]"
  using filtered_df_exact_subsequence
    [of "[world_jan, india_mar, brazil_jul, world_jun]" "[''World'', ''India'']" 18628 18779]
  by (auto simp: in_view_def row_simps)

text \<open>
  Claim C6. With no location selected the view is empty, and with an inverted interval
  (\<open>e < s\<close>) the view is empty; in both cases the filter returns, it raises nothing.
\<close>

theorem filtered_df_empty_cases:
  "filtered_df D [] [s, e] = Inr []
   \<and> (e < s \<longrightarrow> filtered_df D L [s, e] = Inr [])"
proof -
  have "filter (row_mask [] s e) D = []"
    by (simp add: row_mask_def)
  moreover have "filter (row_mask L s e) D = []" if "e < s"
  proof -
    have "\<not> row_mask L s e r" for r
      using that by (cases "date r") (auto simp: row_mask_def pd_Timestamp_def ns_per_day_def)
    then show ?thesis by simp
  qed
  ultimately show ?thesis
    by (simp add: filtered_df_pair)
qed

text \<open>
  Both cases on a table of three rows.
\<close>

theorem filtered_df_empty_cases_witness:
  "filtered_df [world_jan, india_mar, world_jun] [] [18628, 18779] = Inr []
   \<and> filtered_df [world_jan, india_mar, world_jun] [''World'', ''India''] [18779, 18628] = Inr []"
  using filtered_df_empty_cases
    [of "[world_jan, india_mar, world_jun]" 18779 18628 "[''World'', ''India'']"]
    filtered_df_empty_cases
    [of "[world_jan, india_mar, world_jun]" 18628 18779 "[''World'', ''India'']"]
  by simp

lemma location_in_locations: "r \<in> set D \<Longrightarrow> location r \<in> set (locations D)"
  by (simp add: locations_def)

text \<open>
  Claim C10. For dates \<open>s \<le> e\<close>, a selection \<open>L\<close> with names that do not occur in \<open>D\<close>
  gives the same view as \<open>L\<close> restricted to the locations of \<open>D\<close>, and the filter
  returns a view: an unknown name raises nothing and contributes no row.
\<close>

theorem filtered_df_unknown_locations:
  "s \<le> e \<Longrightarrow>
     filtered_df D L [s, e] = filtered_df D (filter (\<lambda>l. l \<in> set (locations D)) L) [s, e]
     \<and> (\<exists>view. filtered_df D L [s, e] = Inr view)"
proof -
  have "filter (row_mask L s e) D
      = filter (row_mask (filter (\<lambda>l. l \<in> set (locations D)) L) s e) D"
    by (rule filter_cong) (auto simp: row_mask_def location_in_locations)
  then show ?thesis
    by (simp add: filtered_df_pair)
qed

text \<open>
  A selection with a name that is in no row of the table.
\<close>

theorem filtered_df_unknown_locations_witness:
  "(18628 :: int) \<le> 18779
   \<and> filtered_df [world_jan, india_mar, world_jun] [''Atlantis'', ''India''] [18628, 18779]
       = filtered_df [world_jan, india_mar, world_jun] [''India''] [18628, 18779]
   \<and> filtered_df [world_jan, india_mar, world_jun] [''Atlantis'', ''India''] [18628, 18779]
       = Inr [india_mar]"
  using filtered_df_unknown_locations
    [of 18628 18779 "[world_jan, india_mar, world_jun]" "[''Atlantis'', ''India'']"]
  by (simp add: filtered_df_pair row_mask_def locations_def row_simps)

section \<open>Properties of the latest global row\<close>

lemma iloc_last:
  "xs \<noteq> [] \<Longrightarrow> iloc xs (- 1) = Inr (last xs)"
  by (cases xs rule: rev_cases) (simp_all add: iloc_def py_index_def nth_append)

lemma iloc_empty: "iloc [] i = Inl IndexError"
  by (simp add: iloc_def py_index_def)

lemma global_data_last:
  "filter (\<lambda>r. location r = ''World'') df \<noteq> [] \<Longrightarrow>
     global_data df = Inr (last (filter (\<lambda>r. location r = ''World'') df))"
  by (simp add: global_data_def iloc_last)

text \<open>
  Claim C2 asks for the \<open>World\<close> row of the greatest date, also in a table that is not
  sorted by date. The script takes the last \<open>World\<close> row by position: on the table
  that holds the row of 2021-06-01 before the row of 2021-01-01 it returns the row of
  2021-01-01, while the latest date of that table, which the script computes on the line
  above and uses for the map and the bar chart, is 2021-06-01.
\<close>

theorem global_data_unsorted:
  "global_data [world_jun, world_jan] = Inr world_jan
   \<and> date world_jan = pd_Timestamp 18628
   \<and> date world_jun = pd_Timestamp 18779
   \<and> latest_date [world_jun, world_jan] = pd_Timestamp 18779"
  by (simp add: global_data_last latest_date_def row_simps)

text \<open>
  The expression of line 125 taken alone fails with \<open>IndexError\<close> on a table with no
  \<open>World\<close> row. In a run of the script no such table arrives there, as the next
  theorem shows.
\<close>

lemma global_data_empty_selection:
  "\<forall>r \<in> set df. location r \<noteq> ''World'' \<Longrightarrow> global_data df = Inl IndexError"
proof -
  assume "\<forall>r \<in> set df. location r \<noteq> ''World''"
  then have "filter (\<lambda>r. location r = ''World'') df = []"
    by (simp add: filter_empty_conv)
  then show ?thesis
    by (simp add: global_data_def iloc_empty)
qed

lemma set_locations: "set (locations df) = location ` set df"
  by (simp add: locations_def)

lemma selected_countries_refused:
  "\<forall>r \<in> set df. location r \<noteq> ''World'' \<Longrightarrow>
     selected_countries df chosen = Inl StreamlitAPIException"
proof -
  assume "\<forall>r \<in> set df. location r \<noteq> ''World''"
  then have "''World'' \<notin> set (locations df)"
    unfolding set_locations by (metis imageE)
  then show ?thesis
    by (simp add: selected_countries_def multiselect_def default_countries_def)
qed

text \<open>
  Claim C3, as the script has it: on a table with no \<open>World\<close> row the run fails, and
  returns no row in place of the missing one; it fails at the country selector of line
  104, whose default \<open>World\<close> is then not one of its options, with Streamlit's
  \<open>StreamlitAPIException\<close>, whatever the user has chosen and whatever the dates are.
\<close>

theorem latest_snapshot_no_world:
  "\<forall>r \<in> set df. location r \<noteq> ''World'' \<Longrightarrow>
     latest_snapshot df chosen date_range = Inl StreamlitAPIException"
proof -
  assume "\<forall>r \<in> set df. location r \<noteq> ''World''"
  then have "selected_countries df chosen = Inl StreamlitAPIException"
    by (rule selected_countries_refused)
  then show ?thesis
    by (simp add: latest_snapshot_def)
qed

text \<open>
  A table of two rows, neither of them of \<open>World\<close>, on which the run stops at the
  selector; and, for comparison, a table with a row of each default country, on which the
  run reaches line 125 and returns a row.
\<close>

theorem latest_snapshot_no_world_witness:
  "location india_mar \<noteq> ''World'' \<and> location brazil_jul \<noteq> ''World''
   \<and> latest_snapshot [india_mar, brazil_jul] [''India''] [18628, 18779]
       = Inl StreamlitAPIException
   \<and> latest_snapshot [world_jan, usa_feb, india_mar, world_jun, brazil_jul] [''India'']
         [18628, 18779]
       = Inr world_jun"
proof -
  have reached:
    "latest_snapshot [world_jan, usa_feb, india_mar, world_jun, brazil_jul] [''India'']
         [18628, 18779]
       = Inr world_jun"
    by (simp add: latest_snapshot_def selected_countries_def multiselect_def
        default_countries_def locations_def filtered_df_pair global_data_last
        usa_feb_def row_simps)
  show ?thesis
    using latest_snapshot_no_world [of "[india_mar, brazil_jul]" "[''India'']" "[18628, 18779]"]
      reached
    by (simp add: row_simps)
qed

text \<open>
  Claim C3 as it is stated names the failure \<open>NotFoundError\<close>; on a table of one row of
  India the failure of the script is another one.
\<close>

theorem latest_snapshot_not_NotFoundError:
  "latest_snapshot [india_mar] [] [18628, 18779] = Inl StreamlitAPIException
   \<and> latest_snapshot [india_mar] [] [18628, 18779] \<noteq> Inl NotFoundError"
  by (simp add: latest_snapshot_def selected_countries_def multiselect_def
      default_countries_def locations_def row_simps)

section \<open>Properties of the testing frame\<close>

text \<open>
  Claim C8. The frame given to the testing chart is the filtered view without the rows
  in which the tests per thousand or the positivity rate is missing: the other rows all
  stay, in their order.
\<close>

theorem fig_test_frame_exact:
  "fig_test_frame view
     = filter (\<lambda>r. new_tests_per_thousand r \<noteq> NaN \<and> positive_rate r \<noteq> NaN) view
   \<and> subseq (fig_test_frame view) view
   \<and> (\<forall>r. r \<in> set (fig_test_frame view) \<longleftrightarrow>
          r \<in> set view \<and> new_tests_per_thousand r \<noteq> NaN \<and> positive_rate r \<noteq> NaN)"
proof -
  have nan: "isna x \<longleftrightarrow> x = NaN" for x
    by (cases x) (simp_all add: isna_def)
  have eq: "fig_test_frame view
     = filter (\<lambda>r. new_tests_per_thousand r \<noteq> NaN \<and> positive_rate r \<noteq> NaN) view"
    by (simp add: fig_test_frame_def dropna_def nan)
  show ?thesis
    unfolding eq by simp
qed

text \<open>
  A filtered view of four rows: only the row that has both metrics reaches the chart; an
  infinite rate is not a missing one, but that row lacks the tests.
\<close>

theorem fig_test_frame_exact_witness:
  "filtered_df [india_tests_only, india_tested, world_jan, india_rate_only, india_mar]
       [''India''] [18628, 18779]
     = Inr [india_tests_only, india_tested, india_rate_only, india_mar]
   \<and> fig_test_frame [india_tests_only, india_tested, india_rate_only, india_mar] = [india_tested]"
  using fig_test_frame_exact [of "[india_tests_only, india_tested, india_rate_only, india_mar]"]
  by (simp add: filtered_df_pair row_mask_def india_tested_def india_tests_only_def india_rate_only_def row_simps)

section \<open>Properties of the rounding\<close>

text \<open>
  The rounding of the float64 model is the one of IEEE 754: \<open>floor_log2\<close> finds the binade
  of a positive value, \<open>round_half_even\<close> is at most one half away from its argument, and
  a positive value that rounds to a finite one is at most half a unit in the last place
  away from it, its significand being an integer of at most 53 bits (or \<open>2 ^ 53\<close>, the
  first value of the next binade).
\<close>

lemma bit_length_bounds:
  "0 < n \<Longrightarrow> 0 < bit_length n \<and> 2 ^ nat (bit_length n - 1) \<le> n \<and> n < 2 ^ nat (bit_length n)"
proof (induction n rule: bit_length.induct)
  case (1 n)
  show ?case
  proof (cases "n div 2 = 0")
    case True
    with "1.prems" have "n = 1" by presburger
    then show ?thesis
      by (simp add: bit_length.simps [of 1] bit_length.simps [of 0])
  next
    case False
    with "1.prems" have pos: "0 < n div 2" by presburger
    with "1.IH" "1.prems"
    have ih: "0 < bit_length (n div 2)"
      "2 ^ nat (bit_length (n div 2) - 1) \<le> n div 2"
      "n div 2 < 2 ^ nat (bit_length (n div 2))"
      by simp_all
    have bl: "bit_length n = 1 + bit_length (n div 2)"
      using "1.prems" by (subst bit_length.simps) simp
    define b where "b = nat (bit_length (n div 2) - 1)"
    have nb: "nat (bit_length (n div 2)) = Suc b"
      using ih(1) by (simp add: b_def)
    have lo: "(2::int) ^ Suc b \<le> n"
    proof -
      have "2 * (n div 2) \<le> n" by presburger
      with ih(2) show ?thesis unfolding b_def [symmetric] by simp
    qed
    have hi: "n < (2::int) ^ Suc (Suc b)"
    proof -
      have "n < 2 * (n div 2 + 1)" by presburger
      with ih(3) show ?thesis unfolding nb by simp
    qed
    from ih(1) nb have "nat (bit_length n - 1) = Suc b" "nat (bit_length n) = Suc (Suc b)"
      unfolding bl by linarith+
    with lo hi ih(1) show ?thesis
      by (simp add: bl)
  qed
qed

lemma pow2_power_int: "pow2 k = power_int 2 k"
  by (simp add: pow2_def power_int_def inverse_eq_divide power_one_over)

lemma floor_log2_bounds:
  assumes "0 < q"
  shows "pow2 (floor_log2 q) \<le> q \<and> q < pow2 (floor_log2 q + 1)"
proof -
  obtain a b where ab: "quotient_of q = (a, b)"
    by (cases "quotient_of q")
  then have b: "0 < b" and q: "q = of_int a / of_int b"
    by (simp_all add: quotient_of_denom_pos quotient_of_div)
  from assms b q have a: "0 < a"
    by (simp add: zero_less_divide_iff)
  define la lb where "la = bit_length a" and "lb = bit_length b"
  from bit_length_bounds [OF a] bit_length_bounds [OF b]
  have la: "0 < la" "2 ^ nat (la - 1) \<le> a" "a < 2 ^ nat la"
    and lb: "0 < lb" "2 ^ nat (lb - 1) \<le> b" "b < 2 ^ nat lb"
    by (simp_all add: la_def lb_def)
  have ra: "power_int 2 (la - 1) \<le> (of_int a :: rat)" "(of_int a :: rat) < power_int 2 la"
  proof -
    have "(of_int (2 ^ nat (la - 1)) :: rat) \<le> of_int a"
      using la(2) by (simp only: of_int_le_iff)
    then show "power_int 2 (la - 1) \<le> (of_int a :: rat)"
      using la(1) by (simp add: power_int_def)
    have "(of_int a :: rat) < of_int (2 ^ nat la)"
      using la(3) by (simp only: of_int_less_iff)
    then show "(of_int a :: rat) < power_int 2 la"
      using la(1) by (simp add: power_int_def)
  qed
  have rb: "power_int 2 (lb - 1) \<le> (of_int b :: rat)" "(of_int b :: rat) < power_int 2 lb"
  proof -
    have "(of_int (2 ^ nat (lb - 1)) :: rat) \<le> of_int b"
      using lb(2) by (simp only: of_int_le_iff)
    then show "power_int 2 (lb - 1) \<le> (of_int b :: rat)"
      using lb(1) by (simp add: power_int_def)
    have "(of_int b :: rat) < of_int (2 ^ nat lb)"
      using lb(3) by (simp only: of_int_less_iff)
    then show "(of_int b :: rat) < power_int 2 lb"
      using lb(1) by (simp add: power_int_def)
  qed
  have bpos: "(0::rat) < of_int b" using b by simp
  have p: "(0::rat) < power_int 2 k" for k
    by (simp add: zero_less_power_int)
  have upper: "q < power_int 2 (la - lb + 1)"
  proof -
    have "q * of_int b = of_int a"
      using bpos by (simp add: q)
    also have "\<dots> < power_int 2 la"
      by (rule ra(2))
    also have "\<dots> = power_int 2 (la - lb + 1) * power_int 2 (lb - 1)"
      by (simp add: power_int_add [symmetric])
    also have "\<dots> \<le> power_int 2 (la - lb + 1) * of_int b"
      using rb(1) p by (simp add: mult_left_mono)
    finally show ?thesis
      using bpos by simp
  qed
  have lower: "power_int 2 (la - lb - 1) < q"
  proof -
    have "power_int 2 (la - lb - 1) * (of_int b :: rat) < power_int 2 (la - lb - 1) * power_int 2 lb"
      using rb(2) p by (simp add: mult_strict_left_mono)
    also have "\<dots> = power_int 2 (la - 1)"
      by (simp add: power_int_add [symmetric])
    also have "\<dots> \<le> of_int a"
      by (rule ra(1))
    also have "\<dots> = q * of_int b"
      using bpos by (simp add: q)
    finally show ?thesis
      using bpos by simp
  qed
  show ?thesis
  proof (cases "pow2 (la - lb) \<le> q")
    case True
    then have "floor_log2 q = la - lb"
      by (simp add: floor_log2_def ab la_def lb_def)
    with True upper show ?thesis
      by (simp add: pow2_power_int)
  next
    case False
    then have "floor_log2 q = la - lb - 1"
      by (simp add: floor_log2_def ab la_def lb_def)
    with False lower show ?thesis
      by (simp add: pow2_power_int)
  qed
qed


lemma round_half_even_nearest:
  "\<bar>of_int (round_half_even q) - q\<bar> \<le> 1 / 2"
proof -
  have "of_int \<lfloor>q\<rfloor> \<le> q" "q < of_int \<lfloor>q\<rfloor> + 1"
    by linarith+
  then show ?thesis
    unfolding round_half_even_def Let_def by (auto simp: abs_le_iff)
qed

lemma pow2_pos: "0 < pow2 k"
  by (simp add: pow2_def)

lemma round64_nearest:
  assumes "0 < q" and "round64 q = Finite r"
  shows "\<exists>m. r = of_int m * pow2 (max (floor_log2 q - 52) (- 1074))
           \<and> 0 \<le> m \<and> m \<le> 2 ^ 53
           \<and> \<bar>r - q\<bar> \<le> pow2 (max (floor_log2 q - 52) (- 1074)) / 2"
proof -
  define e where "e = max (floor_log2 q - 52) (- 1074)"
  define m where "m = round_half_even (q / pow2 e)"
  have p: "0 < pow2 e"
    by (rule pow2_pos)
  from assms have r: "r = of_int m * pow2 e"
    by (auto simp: round64_def Let_def e_def m_def split: if_splits)
  have near: "\<bar>of_int m - q / pow2 e\<bar> \<le> 1 / 2"
    unfolding m_def by (rule round_half_even_nearest)
  have "\<bar>r - q\<bar> = \<bar>of_int m - q / pow2 e\<bar> * pow2 e"
  proof -
    have "r - q = (of_int m - q / pow2 e) * pow2 e"
      using p by (simp add: r field_simps)
    then show ?thesis
      using p by (simp add: abs_mult)
  qed
  also have "\<dots> \<le> 1 / 2 * pow2 e"
    using near p by (simp add: mult_right_mono)
  finally have err: "\<bar>r - q\<bar> \<le> pow2 e / 2"
    by simp
  have lo: "0 \<le> q / pow2 e"
    using assms(1) p by simp
  define P where "P = (2::rat) ^ 53"
  have P: "power_int 2 53 = P" "0 < P" "P = of_int (2 ^ 53)"
    by (simp_all add: P_def power_int_def)
  have hi: "q / pow2 e \<le> P"
  proof -
    have "q < pow2 (floor_log2 q + 1)"
      using floor_log2_bounds [OF assms(1)] by simp
    also have "floor_log2 q + 1 = (floor_log2 q - 52) + 53"
      by simp
    also have "pow2 ((floor_log2 q - 52) + 53) = pow2 (floor_log2 q - 52) * P"
      unfolding pow2_power_int P(1) [symmetric] by (rule power_int_add) simp
    also have "\<dots> \<le> pow2 e * P"
    proof -
      have "pow2 (floor_log2 q - 52) \<le> pow2 e"
        unfolding pow2_power_int e_def by (rule power_int_increasing) simp_all
      then show ?thesis
        using P(2) by (simp only: mult_right_mono less_imp_le)
    qed
    finally have "q < pow2 e * P" .
    then show ?thesis
      using p by (simp add: field_simps)
  qed
  have m0: "0 \<le> m"
  proof -
    have "- (1 / 2) \<le> (of_int m :: rat)"
      using near lo by (simp only: abs_le_iff) linarith
    then have "(of_int (- 1) :: rat) < of_int m"
      by simp
    then have "- 1 < m"
      by (simp only: of_int_less_iff)
    then show ?thesis
      by simp
  qed
  have m1: "m \<le> 2 ^ 53"
  proof -
    have "(of_int m :: rat) \<le> P + 1 / 2"
      using near hi by (simp only: abs_le_iff) linarith
    then have "(of_int m :: rat) < of_int (2 ^ 53 + 1)"
      unfolding P(3) by simp
    then have "m < 2 ^ 53 + 1"
      by (simp only: of_int_less_iff)
    then show ?thesis
      by simp
  qed
  from r m0 m1 err show ?thesis
    unfolding e_def by blast
qed

section \<open>Properties of the number format\<close>

lemma fixed_point_integer:
  "fixed_point 0 True a = group_thousands (digits (round_half_even a))"
  by (simp add: fixed_point_def)

lemma frac_digits_two:
  "frac_digits 2 m = [digit_char (m div 10 mod 10), digit_char (m mod 10)]"
  by (simp add: numeral_2_eq_2)

lemma two_digit_split:
  fixes n :: int
  shows "n mod 100 div 10 mod 10 = n mod 100 div 10" "n mod 100 mod 10 = n mod 10"
proof -
  define m where "m = n mod 100"
  have bounds: "0 \<le> m" "m < 100"
    by (simp_all add: m_def)
  then have "0 \<le> m div 10" "m div 10 < 10"
    by arith+
  then show "n mod 100 div 10 mod 10 = n mod 100 div 10"
    by (simp add: m_def)
  show "n mod 100 mod 10 = n mod 10"
    by (simp add: mod_mod_cancel)
qed

lemma fixed_point_two:
  "fixed_point 2 False a =
     digits (round_half_even (a * 100) div 100)
     @ CHR ''.'' # [digit_char (round_half_even (a * 100) mod 100 div 10),
                    digit_char (round_half_even (a * 100) mod 10)]"
  by (simp add: fixed_point_def Let_def frac_digits_two two_digit_split)

lemma f64_lt_billion:
  "f64_ge n (Finite 1000000) \<Longrightarrow> f64_lt n (Finite 1000000000) = (\<not> f64_ge n (Finite 1000000000))"
  by (cases n) auto

text \<open>
  Claim C4. For every number \<open>n\<close>: from \<open>10^9\<close> on, \<open>format_num\<close> prints \<open>n / 10^9\<close> with
  two decimals and the suffix \<open>B\<close>; from \<open>10^6\<close> on and below \<open>10^9\<close>, \<open>n / 10^6\<close> with two
  decimals and the suffix \<open>M\<close>; otherwise \<open>n\<close> with no decimals and its digits grouped in
  threes, which for a finite \<open>0 \<le> n < 10^6\<close> is the grouped decimal numeral of \<open>n\<close> rounded
  to an integer. It prints 999 as \<open>999\<close>, 1500000 as \<open>1.50M\<close>, 2300000000 as \<open>2.30B\<close> and
  0 as \<open>0\<close>.
\<close>

theorem format_num_thresholds:
  "(f64_ge n (Finite 1000000000) \<longrightarrow>
       format_num n = py_format_f 2 False (f64_div n (Finite 1000000000)) @ ''B'')
   \<and> (f64_ge n (Finite 1000000) \<and> f64_lt n (Finite 1000000000) \<longrightarrow>
       format_num n = py_format_f 2 False (f64_div n (Finite 1000000)) @ ''M'')
   \<and> (\<not> f64_ge n (Finite 1000000000)
       \<and> \<not> (f64_ge n (Finite 1000000) \<and> f64_lt n (Finite 1000000000)) \<longrightarrow>
       format_num n = py_format_f 0 True n)
   \<and> (0 \<le> q \<and> q < 1000000 \<longrightarrow>
       format_num (Finite q) = group_thousands (digits (round_half_even q)))
   \<and> format_num (Finite 999) = ''999''
   \<and> format_num (Finite 1500000) = ''1.50M''
   \<and> format_num (Finite 2300000000) = ''2.30B''
   \<and> format_num (Finite 0) = ''0''"
proof -
  have b: "f64_ge n (Finite 1000000000) \<longrightarrow>
       format_num n = py_format_f 2 False (f64_div n (Finite 1000000000)) @ ''B''"
    by (simp add: format_num_def)
  have m: "f64_ge n (Finite 1000000) \<and> f64_lt n (Finite 1000000000) \<longrightarrow>
       format_num n = py_format_f 2 False (f64_div n (Finite 1000000)) @ ''M''"
    by (auto simp: format_num_def f64_lt_billion)
  have rest: "\<not> f64_ge n (Finite 1000000000)
       \<and> \<not> (f64_ge n (Finite 1000000) \<and> f64_lt n (Finite 1000000000)) \<longrightarrow>
       format_num n = py_format_f 0 True n"
    by (auto simp: format_num_def f64_lt_billion)
  have small: "0 \<le> q \<and> q < 1000000 \<longrightarrow>
       format_num (Finite q) = group_thousands (digits (round_half_even q))"
    by (simp add: format_num_def fixed_point_integer)
  have e1: "format_num (Finite 999) = ''999''"
    by code_simp
  have e2: "format_num (Finite 1500000) = ''1.50M''"
    by code_simp
  have e3: "format_num (Finite 2300000000) = ''2.30B''"
    by code_simp
  have e4: "format_num (Finite 0) = ''0''"
    by code_simp
  from b m rest small e1 e2 e3 e4 show ?thesis
    by blast
qed

text \<open>
  One number in each range. The quotient \<open>1015000 / 10^6\<close> is the float64 just below
  \<open>1.015\<close>, so that it prints as \<open>1.01\<close>; \<open>1234.5\<close> is a tie and rounds to the even
  \<open>1234\<close>.
\<close>

theorem format_num_thresholds_witness:
  "format_num (Finite 7250000000) = ''7.25B''
   \<and> format_num (Finite 1015000) = ''1.01M''
   \<and> format_num (Finite 999999) = ''999,999''
   \<and> format_num (Finite (2469 / 2)) = ''1,234''"
proof -
  have b: "f64_ge (Finite 7250000000) (Finite 1000000000)"
    by simp
  have m: "f64_ge (Finite 1015000) (Finite 1000000) \<and> f64_lt (Finite 1015000) (Finite 1000000000)"
    by simp
  have r: "\<not> f64_ge (Finite 999999) (Finite 1000000000)
       \<and> \<not> (f64_ge (Finite 999999) (Finite 1000000) \<and> f64_lt (Finite 999999) (Finite 1000000000))"
    by simp
  have s: "(0::rat) \<le> 2469 / 2 \<and> (2469 / 2 :: rat) < 1000000"
    by simp
  have vb: "py_format_f 2 False (f64_div (Finite 7250000000) (Finite 1000000000)) @ ''B'' = ''7.25B''"
    by code_simp
  have vm: "py_format_f 2 False (f64_div (Finite 1015000) (Finite 1000000)) @ ''M'' = ''1.01M''"
    by code_simp
  have vr: "py_format_f 0 True (Finite 999999) = ''999,999''"
    by code_simp
  have vs: "group_thousands (digits (round_half_even (2469 / 2))) = ''1,234''"
    by code_simp
  show ?thesis
    using format_num_thresholds [of "Finite 7250000000" 0] b vb
      format_num_thresholds [of "Finite 1015000" 0] m vm
      format_num_thresholds [of "Finite 999999" "2469 / 2"] r vr s vs
    by simp
qed



section \<open>Properties of the mortality card\<close>

text \<open>
  Claim C7. The mortality of the latest global row is its total deaths divided by its
  total cases, times 100, in float64 arithmetic, and the card shows it with two digits
  after the point, rounded, before a percent sign. For 50 deaths in 1000 cases the value
  is 5 and the card shows \<open>5.00%\<close>.
\<close>

theorem mortality_text_two_decimals:
  "mortality g = f64_mul (f64_div (total_deaths g) (total_cases g)) (Finite 100)
   \<and> mortality_text g = py_format_f 2 False (mortality g) @ ''%''
   \<and> (mortality g = Finite q \<and> 0 \<le> q \<longrightarrow>
        mortality_text g =
          digits (round_half_even (q * 100) div 100)
          @ CHR ''.'' # [digit_char (round_half_even (q * 100) mod 100 div 10),
                         digit_char (round_half_even (q * 100) mod 10)] @ ''%'')
   \<and> (total_deaths g = Finite 50 \<and> total_cases g = Finite 1000 \<longrightarrow>
        mortality g = Finite 5 \<and> mortality_text g = ''5.00%'')"
proof -
  have fifty: "f64_mul (f64_div (Finite 50) (Finite 1000)) (Finite 100) = Finite 5"
    by code_simp
  have five: "py_format_f 2 False (Finite 5) @ ''%'' = ''5.00%''"
    by code_simp
  have ex: "mortality g = Finite 5 \<and> mortality_text g = ''5.00%''"
    if h: "total_deaths g = Finite 50 \<and> total_cases g = Finite 1000"
  proof -
    from h have "mortality g = f64_mul (f64_div (Finite 50) (Finite 1000)) (Finite 100)"
      by (simp add: mortality_def)
    with fifty have m5: "mortality g = Finite 5"
      by (simp only:)
    then have "mortality_text g = py_format_f 2 False (Finite 5) @ ''%''"
      by (simp only: mortality_text_def)
    with five have "mortality_text g = ''5.00%''"
      by (simp only:)
    with m5 show ?thesis
      by (rule conjI)
  qed
  have two: "mortality_text g =
          digits (round_half_even (q * 100) div 100)
          @ CHR ''.'' # [digit_char (round_half_even (q * 100) mod 100 div 10),
                         digit_char (round_half_even (q * 100) mod 10)] @ ''%''"
    if "mortality g = Finite q \<and> 0 \<le> q"
    using that by (simp add: mortality_text_def fixed_point_two)
  have d1: "mortality g = f64_mul (f64_div (total_deaths g) (total_cases g)) (Finite 100)"
    by (simp only: mortality_def)
  have d2: "mortality_text g = py_format_f 2 False (mortality g) @ ''%''"
    by (simp only: mortality_text_def)
  from d1 d2 ex two show ?thesis
    by blast
qed

text \<open>
  The card of a table whose latest global row counts 50 deaths in 1000 cases.
\<close>

theorem mortality_text_two_decimals_witness:
  "global_data [world_jan, world_counts] = Inr world_counts
   \<and> total_deaths world_counts = Finite 50 \<and> total_cases world_counts = Finite 1000
   \<and> mortality world_counts = Finite 5
   \<and> mortality_text world_counts = ''5.00%''"
proof -
  have g: "global_data [world_jan, world_counts] = Inr world_counts"
    by (simp add: global_data_last world_counts_def row_simps)
  have c: "total_deaths world_counts = Finite 50 \<and> total_cases world_counts = Finite 1000"
    by (simp add: world_counts_def row_simps)
  show ?thesis
    using mortality_text_two_decimals [of world_counts 5] g c
    by blast
qed

text \<open>
  Claim C9. Nothing guards the divisor: when the total cases of the row are zero or
  missing, the division is carried out all the same, raises nothing, and the mortality is
  an infinity or NaN, which the card shows as \<open>inf%\<close>, \<open>-inf%\<close> or \<open>nan%\<close>.
\<close>

theorem mortality_without_cases:
  "f64_iszero (total_cases g) \<or> total_cases g = NaN \<Longrightarrow>
     \<not> f64_isfinite (mortality g)
     \<and> (mortality_text g = ''inf%'' \<or> mortality_text g = ''-inf%'' \<or> mortality_text g = ''nan%'')"
proof -
  assume c: "f64_iszero (total_cases g) \<or> total_cases g = NaN"
  have d: "f64_div x y = PosInf \<or> f64_div x y = NegInf \<or> f64_div x y = NaN"
    if "f64_iszero y \<or> y = NaN" for x y
    using that by (cases x; cases y) (auto simp: f64_div_def signed_inf_def)
  have m: "f64_mul z (Finite 100) = z" if "z = PosInf \<or> z = NegInf \<or> z = NaN" for z
    using that by (auto simp: f64_mul_def signed_inf_def)
  from d [OF c, of "total_deaths g"] m
  have "mortality g = PosInf \<or> mortality g = NegInf \<or> mortality g = NaN"
    unfolding mortality_def by metis
  then show ?thesis
    by (auto simp: mortality_text_def)
qed

text \<open>
  A row with 50 deaths in 0 cases, and a row whose counts are missing.
\<close>

theorem mortality_without_cases_witness:
  "f64_iszero (total_cases world_no_cases)
   \<and> mortality world_no_cases = PosInf
   \<and> mortality_text world_no_cases = ''inf%''
   \<and> total_cases world_jun = NaN
   \<and> mortality world_jun = NaN
   \<and> mortality_text world_jun = ''nan%''"
proof -
  have z: "f64_iszero (total_cases world_no_cases)" and n: "total_cases world_jun = NaN"
    by (simp_all add: world_no_cases_def row_simps)
  have v: "mortality world_no_cases = PosInf" "mortality world_jun = NaN"
    by (simp_all add: mortality_def f64_div_def f64_mul_def signed_inf_def world_no_cases_def row_simps)
  show ?thesis
    using mortality_without_cases [of world_no_cases] mortality_without_cases [of world_jun] z n v
    by (simp add: mortality_text_def)
qed

end
